theory Spec2Isabelle
  imports Main "HOL-Library.Word" "HOL-Library.Stream"
begin

unbundle bit_operations_syntax

section \<open>The platform: pin I/O and the timer\<close>

text \<open>
  Modelled from the spec: the host platform. \<^verbatim>\<open>k15_nespad.h\<close> calls four functions of
  the Arduino core, \<open>pinMode\<close>, \<open>digitalWrite\<close>, \<open>digitalRead\<close> and
  \<open>delayMicroseconds\<close>, and uses its constants \<open>HIGH\<close>, \<open>LOW\<close>, \<open>INPUT\<close> and
  \<open>OUTPUT\<close>; the header declares none of them. They follow the specification's platform
  collaborator contract (section 6: a pin direction is INPUT or OUTPUT, a logic level is
  HIGH or LOW) and its test double (section 8): the platform records every call in
  order, and answers each \<open>digitalRead\<close> with the next level of a scripted, unending
  sequence of levels.
\<close>

datatype level = LOW | HIGH

datatype pin_mode = INPUT | OUTPUT

text \<open>
  A pin is passed to the platform as a C \<open>int\<close>; the value of the argument expression is
  recorded as an \<open>int\<close>.
\<close>

datatype event =
    PinMode int pin_mode
  | DigitalWrite int level
  | DigitalRead int
  | DelayMicroseconds nat

record platform =
  events :: "event list"
  readings :: "level stream"

definition pinMode :: "int \<Rightarrow> pin_mode \<Rightarrow> platform \<Rightarrow> platform" where
  "pinMode pin m w = w\<lparr>events := events w @ [PinMode pin m]\<rparr>"

definition digitalWrite :: "int \<Rightarrow> level \<Rightarrow> platform \<Rightarrow> platform" where
  "digitalWrite pin l w = w\<lparr>events := events w @ [DigitalWrite pin l]\<rparr>"

definition digitalRead :: "int \<Rightarrow> platform \<Rightarrow> level \<times> platform" where
  "digitalRead pin w =
     (shd (readings w),
      w\<lparr>events := events w @ [DigitalRead pin], readings := stl (readings w)\<rparr>)"

definition delayMicroseconds :: "nat \<Rightarrow> platform \<Rightarrow> platform" where
  "delayMicroseconds us w = w\<lparr>events := events w @ [DelayMicroseconds us]\<rparr>"

section \<open>The data model of \<^verbatim>\<open>k15_nespad.h\<close>\<close>

text \<open>
  \<^verbatim>\<open>typedef struct { unsigned char buttonMask, pulsePin, dataPin, latchPin; } K15_NESPad;\<close>
\<close>

record K15_NESPad =
  buttonMask :: "8 word"
  pulsePin :: "8 word"
  dataPin :: "8 word"
  latchPin :: "8 word"

text \<open>
  The enumerators of \<^verbatim>\<open>K15_NESPadButton\<close>. A C enumeration is an integer type, and
  \<open>K15_NESButtonPressed\<close> accepts any value of it, so a button is an \<open>int\<close>.
\<close>

definition K15_NESPadButton_A :: int where "K15_NESPadButton_A = 0x01"
definition K15_NESPadButton_B :: int where "K15_NESPadButton_B = 0x02"
definition K15_NESPadButton_Select :: int where "K15_NESPadButton_Select = 0x04"
definition K15_NESPadButton_Start :: int where "K15_NESPadButton_Start = 0x08"
definition K15_NESPadButton_Up :: int where "K15_NESPadButton_Up = 0x10"
definition K15_NESPadButton_Down :: int where "K15_NESPadButton_Down = 0x20"
definition K15_NESPadButton_Left :: int where "K15_NESPadButton_Left = 0x40"
definition K15_NESPadButton_Right :: int where "K15_NESPadButton_Right = 0x80"

section \<open>The three operations\<close>

text \<open>
  The argument \<open>p_Pad\<close> is a pointer: \<open>None\<close> is the null pointer, \<open>Some pad\<close> a pointer
  to a structure whose contents are \<open>pad\<close>. Every operation returns the contents of
  the structure after the call (beside its C result, if any) and the platform after
  the call.
\<close>

text \<open>
  \<open>K15_NESInitPad\<close>: the \<open>int\<close> arguments are assigned to \<open>unsigned char\<close> fields, a
  conversion that keeps the value modulo 256 (\<open>word_of_int\<close>); \<open>pinMode\<close> receives the
  \<open>int\<close> arguments themselves.
\<close>

definition K15_NESInitPad ::
  "K15_NESPad option \<Rightarrow> int \<Rightarrow> int \<Rightarrow> int \<Rightarrow> platform \<Rightarrow> K15_NESPad option \<times> platform" where
  "K15_NESInitPad p_Pad p_PulsePin p_DataPin p_LatchPin w =
     (case p_Pad of
        None \<Rightarrow> (None, w)
      | Some pad \<Rightarrow>
          let pad = pad\<lparr>buttonMask := 0\<rparr>;
              pad = pad\<lparr>pulsePin := word_of_int p_PulsePin\<rparr>;
              pad = pad\<lparr>dataPin := word_of_int p_DataPin\<rparr>;
              pad = pad\<lparr>latchPin := word_of_int p_LatchPin\<rparr>;
              w = pinMode p_DataPin INPUT w;
              w = pinMode p_PulsePin OUTPUT w;
              w = pinMode p_LatchPin OUTPUT w
          in (Some pad, w))"

text \<open>
  One iteration of the loop of \<open>K15_NESPollButtons\<close>, on the structure, the local
  \<open>int buttonMask\<close> (written \<open>buttonMask'\<close>, the field keeping the name) and the
  platform. The fields are promoted from \<open>unsigned char\<close> to
  \<open>int\<close> (\<open>uint\<close>) when they are passed to the platform; \<open>1 << buttonIndex\<close> is
  \<open>push_bit buttonIndex 1\<close>.
\<close>

definition poll_body ::
  "nat \<Rightarrow> K15_NESPad \<times> int \<times> platform \<Rightarrow> K15_NESPad \<times> int \<times> platform" where
  "poll_body buttonIndex s =
     (case s of (pad, buttonMask', w) \<Rightarrow>
        let (dataPulse, w) = digitalRead (uint (dataPin pad)) w;
            w = digitalWrite (uint (pulsePin pad)) HIGH w;
            w = digitalWrite (uint (pulsePin pad)) LOW w;
            buttonMask' = (if dataPulse = LOW then buttonMask' OR push_bit buttonIndex 1
                           else buttonMask')
        in (pad, buttonMask', w))"

text \<open>
  \<^verbatim>\<open>for (int buttonIndex = 0; buttonIndex < 8; ++buttonIndex) { ... }\<close>, from any value
  of \<open>buttonIndex\<close>.
\<close>

function poll_loop ::
  "nat \<Rightarrow> K15_NESPad \<times> int \<times> platform \<Rightarrow> K15_NESPad \<times> int \<times> platform" where
  "poll_loop buttonIndex s =
     (if buttonIndex < 8 then poll_loop (buttonIndex + 1) (poll_body buttonIndex s) else s)"
  by pat_completeness auto
termination
  by (relation "measure (\<lambda>(buttonIndex, s). 8 - buttonIndex)") auto

definition K15_NESPollButtons ::
  "K15_NESPad option \<Rightarrow> platform \<Rightarrow> K15_NESPad option \<times> platform" where
  "K15_NESPollButtons p_Pad w =
     (case p_Pad of
        None \<Rightarrow> (None, w)
      | Some pad \<Rightarrow>
          let buttonMask' = 0;
              w = digitalWrite (uint (latchPin pad)) HIGH w;
              w = digitalWrite (uint (latchPin pad)) LOW w;
              w = delayMicroseconds 6 w;
              (pad, buttonMask', w) = poll_loop 0 (pad, buttonMask', w)
          in (Some (pad\<lparr>buttonMask := word_of_int buttonMask'\<rparr>), w))"

text \<open>
  \<open>K15_NESButtonPressed\<close> returns the C truth value of
  \<^verbatim>\<open>(p_Pad->buttonMask & p_Button) > 0\<close>, an \<open>int\<close> that is 0 or 1; \<open>buttonMask\<close> is
  promoted to \<open>int\<close> before the conjunction.
\<close>

definition K15_NESButtonPressed ::
  "K15_NESPad option \<Rightarrow> int \<Rightarrow> platform \<Rightarrow> int \<times> K15_NESPad option \<times> platform" where
  "K15_NESButtonPressed p_Pad p_Button w =
     (case p_Pad of
        None \<Rightarrow> (0, None, w)
      | Some pad \<Rightarrow>
          ((if uint (buttonMask pad) AND p_Button > 0 then 1 else 0), Some pad, w))"

text \<open>
  Two abbreviations for the proofs: the platform after the latch pulse and the settle
  delay that open a poll, and the three platform calls of one loop iteration.
\<close>

definition latched :: "K15_NESPad \<Rightarrow> platform \<Rightarrow> platform" where
  "latched pad w =
     w\<lparr>events := events w @
          [DigitalWrite (uint (latchPin pad)) HIGH,
           DigitalWrite (uint (latchPin pad)) LOW,
           DelayMicroseconds 6]\<rparr>"

definition pulse_group :: "K15_NESPad \<Rightarrow> event list" where
  "pulse_group pad =
     [DigitalRead (uint (dataPin pad)),
      DigitalWrite (uint (pulsePin pad)) HIGH,
      DigitalWrite (uint (pulsePin pad)) LOW]"

section \<open>The loop of \<open>K15_NESPollButtons\<close>\<close>

declare poll_loop.simps [simp del]

lemmas K15_NESPadButton_defs =
  K15_NESPadButton_A_def K15_NESPadButton_B_def K15_NESPadButton_Select_def
  K15_NESPadButton_Start_def K15_NESPadButton_Up_def K15_NESPadButton_Down_def
  K15_NESPadButton_Left_def K15_NESPadButton_Right_def

lemma poll_body_eq:
  "poll_body i (pad, acc, w) =
     (pad,
      (if shd (readings w) = LOW then acc OR 2 ^ i else acc),
      w\<lparr>events := events w @
           [DigitalRead (uint (dataPin pad)),
            DigitalWrite (uint (pulsePin pad)) HIGH,
            DigitalWrite (uint (pulsePin pad)) LOW],
        readings := stl (readings w)\<rparr>)"
  by (simp add: poll_body_def digitalRead_def digitalWrite_def)

text \<open>
  The four facts about the loop are proved by induction on the number \<open>8 - i\<close> of
  iterations still to run: the structure is not written, each iteration adds its three
  platform calls and consumes one reading, and the accumulator gains bit \<open>n\<close> exactly
  when the reading taken in iteration \<open>n\<close> is \<open>LOW\<close>.
\<close>

lemma poll_loop_pad: "fst (poll_loop i (pad, acc, w)) = pad"
proof (induction "8 - i" arbitrary: i acc w)
  case 0
  then show ?case by (simp add: poll_loop.simps)
next
  case (Suc k)
  then have "i < 8" and "k = 8 - (i + 1)" by simp_all
  then show ?case
    using Suc.hyps(1) [of "i + 1"] by (subst poll_loop.simps) (simp add: poll_body_eq)
qed

lemma poll_loop_events:
  "events (snd (snd (poll_loop i (pad, acc, w)))) =
     events w @ concat (replicate (8 - i) (pulse_group pad))"
proof (induction "8 - i" arbitrary: i acc w)
  case 0
  then show ?case by (simp add: poll_loop.simps)
next
  case (Suc k)
  then have "i < 8" and k: "k = 8 - (i + 1)" by simp_all
  then have "8 - i = Suc (8 - (i + 1))" by simp
  then show ?case
    using Suc.hyps(1) [OF k] \<open>i < 8\<close>
    by (subst poll_loop.simps) (simp add: poll_body_eq pulse_group_def)
qed

lemma poll_loop_readings:
  "readings (snd (snd (poll_loop i (pad, acc, w)))) = sdrop (8 - i) (readings w)"
proof (induction "8 - i" arbitrary: i acc w)
  case 0
  then show ?case by (simp add: poll_loop.simps)
next
  case (Suc k)
  then have "i < 8" and k: "k = 8 - (i + 1)" by simp_all
  then have "8 - i = Suc (8 - (i + 1))" by simp
  then show ?case
    using Suc.hyps(1) [OF k] \<open>i < 8\<close>
    by (subst poll_loop.simps) (simp add: poll_body_eq)
qed

lemma poll_loop_bit:
  "bit (fst (snd (poll_loop i (pad, acc, w)))) n \<longleftrightarrow>
     bit acc n \<or> (i \<le> n \<and> n < 8 \<and> readings w !! (n - i) = LOW)"
proof (induction "8 - i" arbitrary: i acc w)
  case 0
  then show ?case by (auto simp add: poll_loop.simps)
next
  case (Suc k)
  then have "i < 8" and k: "k = 8 - (i + 1)" by simp_all
  have step: "poll_loop i (pad, acc, w) = poll_loop (i + 1) (poll_body i (pad, acc, w))"
    using \<open>i < 8\<close> by (subst poll_loop.simps) simp
  show ?case
  proof (cases "n = i")
    case True
    then show ?thesis
      unfolding step poll_body_eq using Suc.hyps(1) [OF k] \<open>i < 8\<close>
      by (simp add: bit_or_iff bit_exp_iff)
  next
    case False
    then have "i \<le> n \<longleftrightarrow> i + 1 \<le> n" by auto
    moreover have "i + 1 \<le> n \<Longrightarrow> readings w !! (n - i) = stl (readings w) !! (n - (i + 1))"
      by (metis Suc_diff_le Suc_eq_plus1 diff_Suc_Suc snth.simps(2))
    ultimately show ?thesis
      unfolding step poll_body_eq using Suc.hyps(1) [OF k] \<open>i < 8\<close> False
      by (auto simp add: bit_or_iff bit_exp_iff)
  qed
qed

text \<open>
  The accumulator stays within 0..255 when it starts there, so it fits the C \<open>int\<close> of
  every platform and the final conversion to \<open>unsigned char\<close> loses nothing.
\<close>

lemma poll_loop_acc_range:
  assumes "0 \<le> acc" and "acc < 256"
  shows "0 \<le> fst (snd (poll_loop i (pad, acc, w))) \<and> fst (snd (poll_loop i (pad, acc, w))) < 256"
  using assms
proof (induction "8 - i" arbitrary: i acc w)
  case 0
  then show ?case by (simp add: poll_loop.simps)
next
  case (Suc k)
  then have "i < 8" and k: "k = 8 - (i + 1)" by simp_all
  have step: "poll_loop i (pad, acc, w) = poll_loop (i + 1) (poll_body i (pad, acc, w))"
    using \<open>i < 8\<close> by (subst poll_loop.simps) simp
  have "(2::int) ^ i < 2 ^ 8"
    using \<open>i < 8\<close> by (intro power_strict_increasing) simp_all
  moreover have "acc < 2 ^ 8"
    using Suc.prems by simp
  ultimately have "acc OR 2 ^ i < 2 ^ 8"
    using Suc.prems(1) by (rule_tac OR_upper)
  moreover have "0 \<le> acc OR 2 ^ i"
    using Suc.prems(1) by simp
  ultimately have "0 \<le> acc OR 2 ^ i \<and> acc OR 2 ^ i < 256"
    by simp
  then show ?case
    unfolding step poll_body_eq using Suc.hyps(1) [OF k] Suc.prems by simp
qed

text \<open>
  The loop is the iteration of its body over the indices that remain, so the state after
  the first \<open>k\<close> iterations of a poll is \<open>fold poll_body [0..<k]\<close> of the state the loop
  starts in. No iteration writes the structure, and the field \<open>buttonMask\<close> of the
  structure has no influence on the accumulator or on the platform.
\<close>

lemma poll_loop_fold: "i \<le> 8 \<Longrightarrow> poll_loop i s = fold poll_body [i..<8] s"
proof (induction "8 - i" arbitrary: i s)
  case 0
  then show ?case by (simp add: poll_loop.simps)
next
  case (Suc k)
  then have "i < 8" and k: "k = 8 - (i + 1)" and le: "i + 1 \<le> 8" by simp_all
  have "[i..<8] = i # [i + 1..<8]"
    using \<open>i < 8\<close> by (simp add: upt_conv_Cons)
  then show ?case
    using Suc.hyps(1) [OF k le] \<open>i < 8\<close> by (subst poll_loop.simps) simp
qed

lemma fold_poll_body_pad: "fst (fold poll_body ks (pad, acc, w)) = pad"
  by (induction ks arbitrary: acc w) (simp_all add: poll_body_eq)

lemma fold_poll_body_old_mask:
  "snd (fold poll_body ks (pad\<lparr>buttonMask := m\<rparr>, acc, w)) = snd (fold poll_body ks (pad, acc, w))"
  by (induction ks arbitrary: acc w) (simp_all add: poll_body_eq)

section \<open>What the operations compute\<close>

lemma K15_NESPollButtons_Some:
  "K15_NESPollButtons (Some pad) w =
     (Some (pad\<lparr>buttonMask := word_of_int (fst (snd (poll_loop 0 (pad, 0, latched pad w))))\<rparr>),
      snd (snd (poll_loop 0 (pad, 0, latched pad w))))"
proof -
  obtain pad' acc w' where r: "poll_loop 0 (pad, 0, latched pad w) = (pad', acc, w')"
    by (cases "poll_loop 0 (pad, 0, latched pad w)") auto
  then have "pad' = pad" using poll_loop_pad [of 0 pad 0 "latched pad w"] by simp
  with r show ?thesis
    by (simp add: K15_NESPollButtons_def latched_def digitalWrite_def delayMicroseconds_def)
qed

lemma poll_mask_bit:
  "bit (word_of_int (fst (snd (poll_loop 0 (pad, 0, latched pad w)))) :: 8 word) n \<longleftrightarrow>
     n < 8 \<and> readings w !! n = LOW"
  by (auto simp add: bit_word_of_int_iff poll_loop_bit latched_def)

lemma poll_events:
  "events (snd (snd (poll_loop 0 (pad, 0, latched pad w)))) =
     events w @
     [DigitalWrite (uint (latchPin pad)) HIGH,
      DigitalWrite (uint (latchPin pad)) LOW,
      DelayMicroseconds 6] @
     concat (replicate 8 (pulse_group pad))"
  by (simp add: poll_loop_events latched_def)

lemma K15_NESInitPad_Some:
  "K15_NESInitPad (Some pad) p_PulsePin p_DataPin p_LatchPin w =
     (Some \<lparr>buttonMask = 0, pulsePin = word_of_int p_PulsePin,
            dataPin = word_of_int p_DataPin, latchPin = word_of_int p_LatchPin\<rparr>,
      w\<lparr>events := events w @
           [PinMode p_DataPin INPUT, PinMode p_PulsePin OUTPUT, PinMode p_LatchPin OUTPUT]\<rparr>)"
  by (cases pad) (simp add: K15_NESInitPad_def pinMode_def)

lemma uint_word8_of_int: "uint (word_of_int x :: 8 word) = x mod 256"
  by (simp add: uint_word_of_int)

lemma word8_of_int_eq_iff:
  "(word_of_int x :: 8 word) = word_of_int y \<longleftrightarrow> x mod 256 = y mod 256"
  by (simp add: word_of_int_eq_iff take_bit_eq_mod)

lemma bit_uint8: "bit (uint (m :: 8 word)) n \<longleftrightarrow> bit m n"
  using bit_imp_le_length [of m n] by (auto simp add: bit_uint_iff)

lemma and_flag_pos_iff: "uint (m :: 8 word) AND 2 ^ i > 0 \<longleftrightarrow> bit m i"
proof -
  have "0 \<le> uint m AND 2 ^ i" by simp
  then have "uint m AND 2 ^ i > 0 \<longleftrightarrow> uint m AND 2 ^ i \<noteq> 0" by linarith
  also have "\<dots> \<longleftrightarrow> bit (uint m) i"
    by (simp add: bit_iff_and_push_bit_not_eq_0)
  finally show ?thesis by (simp only: bit_uint8)
qed

lemma and_pos_iff: "uint (m :: 8 word) AND b > 0 \<longleftrightarrow> (\<exists>n. bit b n \<and> bit m n)"
proof -
  have "0 \<le> uint m AND b" by simp
  then have "uint m AND b > 0 \<longleftrightarrow> uint m AND b \<noteq> 0" by linarith
  also have "\<dots> \<longleftrightarrow> (\<exists>n. bit (uint m AND b) n)"
    by (auto simp add: bit_eq_iff)
  also have "\<dots> \<longleftrightarrow> (\<exists>n. bit b n \<and> bit (uint m) n)"
    by (auto simp add: bit_and_iff)
  finally show ?thesis by (simp only: bit_uint8)
qed

lemma pressed_flag:
  "fst (K15_NESButtonPressed (Some pad) (2 ^ i) w) = (if bit (buttonMask pad) i then 1 else 0)"
  by (simp add: K15_NESButtonPressed_def and_flag_pos_iff)

lemma pressed_named:
  "fst (K15_NESButtonPressed (Some pad) K15_NESPadButton_A w) = (if bit (buttonMask pad) 0 then 1 else 0)"
  "fst (K15_NESButtonPressed (Some pad) K15_NESPadButton_B w) = (if bit (buttonMask pad) 1 then 1 else 0)"
  "fst (K15_NESButtonPressed (Some pad) K15_NESPadButton_Select w) = (if bit (buttonMask pad) 2 then 1 else 0)"
  "fst (K15_NESButtonPressed (Some pad) K15_NESPadButton_Start w) = (if bit (buttonMask pad) 3 then 1 else 0)"
  "fst (K15_NESButtonPressed (Some pad) K15_NESPadButton_Up w) = (if bit (buttonMask pad) 4 then 1 else 0)"
  "fst (K15_NESButtonPressed (Some pad) K15_NESPadButton_Down w) = (if bit (buttonMask pad) 5 then 1 else 0)"
  "fst (K15_NESButtonPressed (Some pad) K15_NESPadButton_Left w) = (if bit (buttonMask pad) 6 then 1 else 0)"
  "fst (K15_NESButtonPressed (Some pad) K15_NESPadButton_Right w) = (if bit (buttonMask pad) 7 then 1 else 0)"
  using pressed_flag [of pad 0 w] pressed_flag [of pad 1 w] pressed_flag [of pad 2 w]
    pressed_flag [of pad 3 w] pressed_flag [of pad 4 w] pressed_flag [of pad 5 w]
    pressed_flag [of pad 6 w] pressed_flag [of pad 7 w]
  by (simp_all add: K15_NESPadButton_defs)

lemma stake_8: "stake 8 s = [s !! 0, s !! 1, s !! 2, s !! 3, s !! 4, s !! 5, s !! 6, s !! 7]"
  by (simp add: eval_nat_numeral)

section \<open>Null reader\<close>

text \<open>
  C5. With a null reader, each of the three operations is a safe default: neither
  \<open>K15_NESInitPad\<close> nor \<open>K15_NESPollButtons\<close> does anything (no platform call, no
  reading consumed, no structure written), and \<open>K15_NESButtonPressed\<close> returns 0, again
  without touching the platform.
\<close>

theorem null_reader_safe_defaults:
  "K15_NESInitPad None p_PulsePin p_DataPin p_LatchPin w = (None, w)
   \<and> K15_NESPollButtons None w = (None, w)
   \<and> K15_NESButtonPressed None p_Button w = (0, None, w)"
  by (simp add: K15_NESInitPad_def K15_NESPollButtons_def K15_NESButtonPressed_def)

section \<open>Polling\<close>

text \<open>
  C1. Whatever eight levels the platform returns for the eight \<open>digitalRead\<close> calls of a
  poll (the first eight elements of \<open>readings w\<close>, in sampling order), and whatever the
  reader held before, after \<open>K15_NESPollButtons\<close> the field \<open>buttonMask\<close> is the byte
  whose bit \<open>i\<close> is set exactly when \<open>i\<close> is one of 0..7 and the \<open>i\<close>-th reading was
  \<open>LOW\<close>.
\<close>

theorem poll_fills_buttonMask:
  "\<exists>pad' w'. K15_NESPollButtons (Some pad) w = (Some pad', w')
     \<and> (\<forall>i. bit (buttonMask pad') i \<longleftrightarrow> i < 8 \<and> readings w !! i = LOW)"
  by (simp add: K15_NESPollButtons_Some poll_mask_bit)

text \<open>
  C2. One call of \<open>K15_NESPollButtons\<close> on a non-null reader adds exactly this sequence
  of platform calls to those made before: a write of \<open>HIGH\<close> and a write of \<open>LOW\<close> to
  the latch pin, a wait of 6 microseconds, and then eight times a read of the data pin
  followed by a write of \<open>HIGH\<close> and a write of \<open>LOW\<close> to the pulse pin. So the one latch
  pulse comes before every pulse on the pulse pin, eight pulses follow it, each read comes
  before the pulse of its iteration, and the read for position 0 comes before the first
  pulse. Exactly eight readings are consumed.
\<close>

theorem poll_event_sequence:
  "\<exists>pad' w'. K15_NESPollButtons (Some pad) w = (Some pad', w')
     \<and> events w' =
         events w @
         [DigitalWrite (uint (latchPin pad)) HIGH,
          DigitalWrite (uint (latchPin pad)) LOW,
          DelayMicroseconds 6] @
         concat (replicate 8
           [DigitalRead (uint (dataPin pad)),
            DigitalWrite (uint (pulsePin pad)) HIGH,
            DigitalWrite (uint (pulsePin pad)) LOW])
     \<and> readings w' = sdrop 8 (readings w)"
proof -
  let ?r = "poll_loop 0 (pad, 0, latched pad w)"
  have "events (snd (snd ?r)) =
         events w @
         [DigitalWrite (uint (latchPin pad)) HIGH,
          DigitalWrite (uint (latchPin pad)) LOW,
          DelayMicroseconds 6] @
         concat (replicate 8
           [DigitalRead (uint (dataPin pad)),
            DigitalWrite (uint (pulsePin pad)) HIGH,
            DigitalWrite (uint (pulsePin pad)) LOW])"
    by (simp only: poll_events pulse_group_def)
  moreover have "readings (snd (snd ?r)) = sdrop 8 (readings w)"
    by (simp add: poll_loop_readings latched_def)
  ultimately show ?thesis
    by (simp only: K15_NESPollButtons_Some) blast
qed

text \<open>
  The poll of the header's example wiring (pulse pin 8, data pin 12, latch pin 7) on a
  data line that alternates, starting low: the whole result, computed.
\<close>

lemma poll_example_alternating:
  "K15_NESPollButtons
     (Some \<lparr>buttonMask = 0, pulsePin = 8, dataPin = 12, latchPin = 7\<rparr>)
     \<lparr>events = [], readings = cycle [LOW, HIGH]\<rparr> =
   (Some \<lparr>buttonMask = 0x55, pulsePin = 8, dataPin = 12, latchPin = 7\<rparr>,
    \<lparr>events =
       [DigitalWrite 7 HIGH, DigitalWrite 7 LOW, DelayMicroseconds 6,
        DigitalRead 12, DigitalWrite 8 HIGH, DigitalWrite 8 LOW,
        DigitalRead 12, DigitalWrite 8 HIGH, DigitalWrite 8 LOW,
        DigitalRead 12, DigitalWrite 8 HIGH, DigitalWrite 8 LOW,
        DigitalRead 12, DigitalWrite 8 HIGH, DigitalWrite 8 LOW,
        DigitalRead 12, DigitalWrite 8 HIGH, DigitalWrite 8 LOW,
        DigitalRead 12, DigitalWrite 8 HIGH, DigitalWrite 8 LOW,
        DigitalRead 12, DigitalWrite 8 HIGH, DigitalWrite 8 LOW,
        DigitalRead 12, DigitalWrite 8 HIGH, DigitalWrite 8 LOW],
      readings = cycle [LOW, HIGH]\<rparr>)"
  by (simp add: K15_NESPollButtons_def poll_loop.simps poll_body_def digitalWrite_def
      digitalRead_def delayMicroseconds_def)

text \<open>
  The patterns the specification lists for tests: all high, all low, alternating from
  high, and a single low reading at position 3, each on a reader whose mask held
  \<open>0x3C\<close> before.
\<close>

lemma poll_example_masks:
  "fst (K15_NESPollButtons (Some \<lparr>buttonMask = 0x3C, pulsePin = 8, dataPin = 12, latchPin = 7\<rparr>)
     \<lparr>events = [], readings = sconst HIGH\<rparr>)
   = Some \<lparr>buttonMask = 0x00, pulsePin = 8, dataPin = 12, latchPin = 7\<rparr>"
  "fst (K15_NESPollButtons (Some \<lparr>buttonMask = 0x3C, pulsePin = 8, dataPin = 12, latchPin = 7\<rparr>)
     \<lparr>events = [], readings = sconst LOW\<rparr>)
   = Some \<lparr>buttonMask = 0xFF, pulsePin = 8, dataPin = 12, latchPin = 7\<rparr>"
  "fst (K15_NESPollButtons (Some \<lparr>buttonMask = 0x3C, pulsePin = 8, dataPin = 12, latchPin = 7\<rparr>)
     \<lparr>events = [], readings = cycle [HIGH, LOW]\<rparr>)
   = Some \<lparr>buttonMask = 0xAA, pulsePin = 8, dataPin = 12, latchPin = 7\<rparr>"
  "fst (K15_NESPollButtons (Some \<lparr>buttonMask = 0x3C, pulsePin = 8, dataPin = 12, latchPin = 7\<rparr>)
     \<lparr>events = [], readings = HIGH ## HIGH ## HIGH ## LOW ## sconst HIGH\<rparr>)
   = Some \<lparr>buttonMask = 0x08, pulsePin = 8, dataPin = 12, latchPin = 7\<rparr>"
  by (simp_all add: K15_NESPollButtons_def poll_loop.simps poll_body_def digitalWrite_def
      digitalRead_def delayMicroseconds_def)

text \<open>
  C7. A poll of a non-null reader runs in these states: the structure as it was given,
  an accumulator that starts at 0, and the platform after the latch pulse and the wait;
  then one more loop iteration at a time. After any number \<open>k\<close> of iterations the
  structure is still exactly the one given, \<open>buttonMask\<close> included: nothing is written
  during the loop, neither by a single iteration nor by the loop run from any index.
  The result of \<open>K15_NESPollButtons\<close> is the given structure with \<open>buttonMask\<close>
  assigned, once and as a whole, the accumulator left by the eight iterations. The
  value \<open>buttonMask\<close> held before has no influence on the result, so the old mask is
  replaced, never merged; \<open>pulsePin\<close>, \<open>dataPin\<close> and \<open>latchPin\<close> are as before.
  \<open>K15_NESButtonPressed\<close> leaves both the structure and the platform as they were.
\<close>

theorem poll_writes_buttonMask_once:
  "K15_NESPollButtons (Some pad) w =
     (case fold poll_body [0..<8]
             (pad, 0,
              delayMicroseconds 6
                (digitalWrite (uint (latchPin pad)) LOW
                  (digitalWrite (uint (latchPin pad)) HIGH w))) of
        (pad', acc, w') \<Rightarrow> (Some (pad\<lparr>buttonMask := word_of_int acc\<rparr>), w'))
   \<and> (\<forall>k. fst (fold poll_body [0..<k]
             (pad, 0,
              delayMicroseconds 6
                (digitalWrite (uint (latchPin pad)) LOW
                  (digitalWrite (uint (latchPin pad)) HIGH w)))) = pad)
   \<and> K15_NESPollButtons (Some (pad\<lparr>buttonMask := m\<rparr>)) w = K15_NESPollButtons (Some pad) w
   \<and> (\<exists>pad' w'. K15_NESPollButtons (Some pad) w = (Some pad', w')
        \<and> pulsePin pad' = pulsePin pad \<and> dataPin pad' = dataPin pad
        \<and> latchPin pad' = latchPin pad)
   \<and> fst (poll_body i (pad, acc, v)) = pad
   \<and> fst (poll_loop i (pad, acc, v)) = pad
   \<and> snd (K15_NESButtonPressed p b w) = (p, w)"
proof -
  let ?w0 = "delayMicroseconds 6
                (digitalWrite (uint (latchPin pad)) LOW
                  (digitalWrite (uint (latchPin pad)) HIGH w))"
  have w0: "?w0 = latched pad w"
    by (simp add: latched_def digitalWrite_def delayMicroseconds_def)
  have loop: "poll_loop 0 s = fold poll_body [0..<8] s" for s
    by (rule poll_loop_fold) simp
  have 1: "K15_NESPollButtons (Some pad) w =
     (case fold poll_body [0..<8] (pad, 0, ?w0) of
        (pad', acc, w') \<Rightarrow> (Some (pad\<lparr>buttonMask := word_of_int acc\<rparr>), w'))"
    unfolding w0 by (simp only: K15_NESPollButtons_Some loop) (simp add: case_prod_beta)
  have 2: "\<forall>k. fst (fold poll_body [0..<k] (pad, 0, ?w0)) = pad"
    by (simp only: fold_poll_body_pad) simp
  have l: "latched (pad\<lparr>buttonMask := m\<rparr>) w = latched pad w"
    by (simp add: latched_def)
  have 3: "K15_NESPollButtons (Some (pad\<lparr>buttonMask := m\<rparr>)) w = K15_NESPollButtons (Some pad) w"
    by (simp only: K15_NESPollButtons_Some loop l fold_poll_body_old_mask) simp
  have 4: "\<exists>pad' w'. K15_NESPollButtons (Some pad) w = (Some pad', w')
        \<and> pulsePin pad' = pulsePin pad \<and> dataPin pad' = dataPin pad
        \<and> latchPin pad' = latchPin pad"
    by (simp add: K15_NESPollButtons_Some)
  have 5: "fst (poll_body i (pad, acc, v)) = pad"
    by (simp add: poll_body_eq)
  have 6: "fst (poll_loop i (pad, acc, v)) = pad"
    by (rule poll_loop_pad)
  have 7: "snd (K15_NESButtonPressed p b w) = (p, w)"
    by (cases p) (simp_all add: K15_NESButtonPressed_def)
  from 1 2 3 4 5 6 7 show ?thesis by blast
qed

text \<open>
  A reader whose mask held \<open>0x3C\<close> and a data line that is high throughout: the poll
  leaves the mask \<open>0x00\<close>, not \<open>0x3C\<close>, and the pins as they were.
\<close>

lemma poll_example_overwrites_mask:
  "fst (K15_NESPollButtons (Some \<lparr>buttonMask = 0x3C, pulsePin = 8, dataPin = 12, latchPin = 7\<rparr>)
     \<lparr>events = [], readings = sconst HIGH\<rparr>)
   = Some \<lparr>buttonMask = 0x00, pulsePin = 8, dataPin = 12, latchPin = 7\<rparr>"
  by (simp add: K15_NESPollButtons_def poll_loop.simps poll_body_def digitalWrite_def
      digitalRead_def delayMicroseconds_def)

section \<open>Querying a button\<close>

text \<open>
  C3. For a non-null reader, \<open>K15_NESButtonPressed\<close> returns true (1) exactly when
  \<open>buttonMask & button\<close> is not 0, and returns the structure and the platform as they
  were: no pin I/O, no state change. For each of the eight named buttons the result is
  decided by the one bit of \<open>buttonMask\<close> at the button's position, so the other bits
  have no influence; with the mask \<open>0b00010001\<close> the answers for A, B, Select, Start,
  Up, Down, Left, Right are true, false, false, false, true, false, false, false.
\<close>

theorem button_pressed_reads_mask:
  "K15_NESButtonPressed (Some pad) b w =
     ((if uint (buttonMask pad) AND b = 0 then 0 else 1), Some pad, w)
   \<and> (fst (K15_NESButtonPressed (Some pad) K15_NESPadButton_A w) = 1 \<longleftrightarrow> bit (buttonMask pad) 0)
   \<and> (fst (K15_NESButtonPressed (Some pad) K15_NESPadButton_B w) = 1 \<longleftrightarrow> bit (buttonMask pad) 1)
   \<and> (fst (K15_NESButtonPressed (Some pad) K15_NESPadButton_Select w) = 1 \<longleftrightarrow> bit (buttonMask pad) 2)
   \<and> (fst (K15_NESButtonPressed (Some pad) K15_NESPadButton_Start w) = 1 \<longleftrightarrow> bit (buttonMask pad) 3)
   \<and> (fst (K15_NESButtonPressed (Some pad) K15_NESPadButton_Up w) = 1 \<longleftrightarrow> bit (buttonMask pad) 4)
   \<and> (fst (K15_NESButtonPressed (Some pad) K15_NESPadButton_Down w) = 1 \<longleftrightarrow> bit (buttonMask pad) 5)
   \<and> (fst (K15_NESButtonPressed (Some pad) K15_NESPadButton_Left w) = 1 \<longleftrightarrow> bit (buttonMask pad) 6)
   \<and> (fst (K15_NESButtonPressed (Some pad) K15_NESPadButton_Right w) = 1 \<longleftrightarrow> bit (buttonMask pad) 7)
   \<and> map (\<lambda>b. fst (K15_NESButtonPressed (Some (pad\<lparr>buttonMask := 0b00010001\<rparr>)) b w))
        [K15_NESPadButton_A, K15_NESPadButton_B, K15_NESPadButton_Select,
         K15_NESPadButton_Start, K15_NESPadButton_Up, K15_NESPadButton_Down,
         K15_NESPadButton_Left, K15_NESPadButton_Right]
      = [1, 0, 0, 0, 1, 0, 0, 0]"
proof -
  have "0 \<le> uint (buttonMask pad) AND b" by simp
  then have "uint (buttonMask pad) AND b > 0 \<longleftrightarrow> uint (buttonMask pad) AND b \<noteq> 0"
    by linarith
  then have "K15_NESButtonPressed (Some pad) b w =
     ((if uint (buttonMask pad) AND b = 0 then 0 else 1), Some pad, w)"
    by (simp add: K15_NESButtonPressed_def)
  moreover have "map (\<lambda>b. fst (K15_NESButtonPressed (Some (pad\<lparr>buttonMask := 0b00010001\<rparr>)) b w))
        [K15_NESPadButton_A, K15_NESPadButton_B, K15_NESPadButton_Select,
         K15_NESPadButton_Start, K15_NESPadButton_Up, K15_NESPadButton_Down,
         K15_NESPadButton_Left, K15_NESPadButton_Right]
      = [1, 0, 0, 0, 1, 0, 0, 0]"
    by (simp add: K15_NESButtonPressed_def K15_NESPadButton_defs)
  ultimately show ?thesis
    by (simp add: pressed_named)
qed

text \<open>
  C10. For a non-null reader and any value \<open>b\<close> of the button argument, with one bit
  set, several or none, \<open>K15_NESButtonPressed\<close> returns 1 when some bit of \<open>b\<close> is also
  set in \<open>buttonMask\<close> and 0 otherwise; it returns nothing but 0 or 1.
\<close>

theorem button_pressed_any_of:
  "fst (K15_NESButtonPressed (Some pad) b w) =
     (if \<exists>n. bit b n \<and> bit (buttonMask pad) n then 1 else 0)
   \<and> (fst (K15_NESButtonPressed (Some pad) b w) = 0
      \<or> fst (K15_NESButtonPressed (Some pad) b w) = 1)"
  by (simp add: K15_NESButtonPressed_def and_pos_iff)

text \<open>
  Two buttons at once: the flags of A and B together (\<open>0x03\<close>) against a mask that has
  only B, and against one that has neither.
\<close>

lemma button_pressed_example_two_flags:
  "fst (K15_NESButtonPressed
          (Some \<lparr>buttonMask = 0x02, pulsePin = 8, dataPin = 12, latchPin = 7\<rparr>) 0x03 w) = 1"
  "fst (K15_NESButtonPressed
          (Some \<lparr>buttonMask = 0x04, pulsePin = 8, dataPin = 12, latchPin = 7\<rparr>) 0x03 w) = 0"
  by (simp_all add: K15_NESButtonPressed_def)

section \<open>Initialisation\<close>

text \<open>
  C4, as the code has it. For a non-null reader and any pin arguments, \<open>K15_NESInitPad\<close>
  calls \<open>pinMode\<close> three times, with the data pin as \<open>INPUT\<close> and the pulse and latch
  pins as \<open>OUTPUT\<close> (the \<open>int\<close> arguments as they were given), sets \<open>buttonMask\<close> to 0,
  and stores in each of the three \<open>unsigned char\<close> pin fields the pin argument reduced
  modulo 256. Nothing of the structure's earlier contents remains.
\<close>

theorem init_pad_effect:
  "\<exists>pad'. K15_NESInitPad (Some pad) p_PulsePin p_DataPin p_LatchPin w =
       (Some pad',
        w\<lparr>events := events w @
             [PinMode p_DataPin INPUT, PinMode p_PulsePin OUTPUT, PinMode p_LatchPin OUTPUT]\<rparr>)
     \<and> buttonMask pad' = 0
     \<and> uint (pulsePin pad') = p_PulsePin mod 256
     \<and> uint (dataPin pad') = p_DataPin mod 256
     \<and> uint (latchPin pad') = p_LatchPin mod 256"
  by (simp add: K15_NESInitPad_Some uint_word8_of_int)

text \<open>
  The pin arguments themselves are stored only when they fit an \<open>unsigned char\<close>. With
  the pulse pin 256, \<open>pinMode\<close> is called for pin 256 and the reader holds pulse pin 0,
  the pin that later polls will drive.
\<close>

theorem init_pad_stores_pins_counterexample:
  "K15_NESInitPad (Some \<lparr>buttonMask = 0, pulsePin = 0, dataPin = 0, latchPin = 0\<rparr>) 256 12 7
       \<lparr>events = [], readings = sconst HIGH\<rparr> =
     (Some \<lparr>buttonMask = 0, pulsePin = 0, dataPin = 12, latchPin = 7\<rparr>,
      \<lparr>events = [PinMode 12 INPUT, PinMode 256 OUTPUT, PinMode 7 OUTPUT],
       readings = sconst HIGH\<rparr>)
   \<and> uint (pulsePin \<lparr>buttonMask = 0, pulsePin = 0, dataPin = 12, latchPin = 7\<rparr>) \<noteq> 256"
  by (simp add: K15_NESInitPad_def pinMode_def)

text \<open>Pin arguments in 0..255, the pin numbers of the boards the header is written for, are
  stored as they are.\<close>

lemma init_pad_stores_small_pins:
  assumes "0 \<le> p_PulsePin" "p_PulsePin < 256" "0 \<le> p_DataPin" "p_DataPin < 256"
    "0 \<le> p_LatchPin" "p_LatchPin < 256"
  shows "\<exists>pad' w'. K15_NESInitPad (Some pad) p_PulsePin p_DataPin p_LatchPin w = (Some pad', w')
     \<and> uint (pulsePin pad') = p_PulsePin
     \<and> uint (dataPin pad') = p_DataPin
     \<and> uint (latchPin pad') = p_LatchPin"
  using assms by (simp add: K15_NESInitPad_Some uint_word8_of_int)

text \<open>
  C9. The value stored for each pin is the pin argument modulo 256, and a poll of the
  reader just initialised does all its pin I/O on these reduced pins. Two
  initialisations of a reader produce the same structure exactly when their pin
  arguments are congruent modulo 256, pin by pin; in particular congruent arguments give
  readers that nothing can tell apart.
\<close>

theorem init_narrows_pins:
  "(\<exists>pad' w'. K15_NESInitPad (Some pad) p_PulsePin p_DataPin p_LatchPin w = (Some pad', w')
      \<and> uint (pulsePin pad') = p_PulsePin mod 256
      \<and> uint (dataPin pad') = p_DataPin mod 256
      \<and> uint (latchPin pad') = p_LatchPin mod 256
      \<and> events (snd (K15_NESPollButtons (Some pad') w')) =
          events w' @
          [DigitalWrite (p_LatchPin mod 256) HIGH,
           DigitalWrite (p_LatchPin mod 256) LOW,
           DelayMicroseconds 6] @
          concat (replicate 8
            [DigitalRead (p_DataPin mod 256),
             DigitalWrite (p_PulsePin mod 256) HIGH,
             DigitalWrite (p_PulsePin mod 256) LOW]))
   \<and> (fst (K15_NESInitPad (Some pad) p_PulsePin p_DataPin p_LatchPin w) =
        fst (K15_NESInitPad (Some pad) p_PulsePin' p_DataPin' p_LatchPin' w)
      \<longleftrightarrow> p_PulsePin mod 256 = p_PulsePin' mod 256
          \<and> p_DataPin mod 256 = p_DataPin' mod 256
          \<and> p_LatchPin mod 256 = p_LatchPin' mod 256)"
  by (simp add: K15_NESInitPad_Some K15_NESPollButtons_Some poll_events
      pulse_group_def uint_word8_of_int word8_of_int_eq_iff)

text \<open>The pins 8, 12 and 7 and the pins 264, -244 and 519 give the same reader.\<close>

lemma init_example_congruent_pins:
  "fst (K15_NESInitPad (Some pad) 264 (- 244) 519 w) = fst (K15_NESInitPad (Some pad) 8 12 7 w)"
  by (simp add: K15_NESInitPad_Some)

text \<open>
  C6. Right after \<open>K15_NESInitPad\<close> on a non-null reader, with no poll in between,
  \<open>K15_NESButtonPressed\<close> returns false (0) for every button argument, so for each of
  the eight named buttons.
\<close>

theorem no_button_pressed_after_init:
  "(case K15_NESInitPad (Some pad) p_PulsePin p_DataPin p_LatchPin w of
      (p, w') \<Rightarrow> fst (K15_NESButtonPressed p b w')) = 0
   \<and> (case K15_NESInitPad (Some pad) p_PulsePin p_DataPin p_LatchPin w of
        (p, w') \<Rightarrow>
          map (\<lambda>b. fst (K15_NESButtonPressed p b w'))
            [K15_NESPadButton_A, K15_NESPadButton_B, K15_NESPadButton_Select,
             K15_NESPadButton_Start, K15_NESPadButton_Up, K15_NESPadButton_Down,
             K15_NESPadButton_Left, K15_NESPadButton_Right])
      = [0, 0, 0, 0, 0, 0, 0, 0]"
  by (simp add: K15_NESInitPad_Some K15_NESButtonPressed_def)

section \<open>The button identifiers\<close>

text \<open>
  C8. The eight enumerators have the values A = 0x01, B = 0x02, Select = 0x04,
  Start = 0x08, Up = 0x10, Down = 0x20, Left = 0x40 and Right = 0x80: in the order A, B,
  Select, Start, Up, Down, Left, Right the \<open>i\<close>-th of them is \<open>2 ^ i\<close>. After a poll, the
  query for the \<open>i\<close>-th of them is true exactly when the \<open>i\<close>-th reading of that poll
  was \<open>LOW\<close>, so the flag of button \<open>i\<close> is bit \<open>i\<close> of the mask the poll fills.
\<close>

theorem button_values:
  "K15_NESPadButton_A = 0x01 \<and> K15_NESPadButton_B = 0x02
   \<and> K15_NESPadButton_Select = 0x04 \<and> K15_NESPadButton_Start = 0x08
   \<and> K15_NESPadButton_Up = 0x10 \<and> K15_NESPadButton_Down = 0x20
   \<and> K15_NESPadButton_Left = 0x40 \<and> K15_NESPadButton_Right = 0x80
   \<and> [K15_NESPadButton_A, K15_NESPadButton_B, K15_NESPadButton_Select,
       K15_NESPadButton_Start, K15_NESPadButton_Up, K15_NESPadButton_Down,
       K15_NESPadButton_Left, K15_NESPadButton_Right] = map (\<lambda>i. 2 ^ i) [0..<8]
   \<and> (\<exists>pad' w'. K15_NESPollButtons (Some pad) w = (Some pad', w')
        \<and> map (\<lambda>b. fst (K15_NESButtonPressed (Some pad') b w'))
            [K15_NESPadButton_A, K15_NESPadButton_B, K15_NESPadButton_Select,
             K15_NESPadButton_Start, K15_NESPadButton_Up, K15_NESPadButton_Down,
             K15_NESPadButton_Left, K15_NESPadButton_Right]
          = map (\<lambda>l. if l = LOW then 1 else 0) (stake 8 (readings w)))"
proof -
  have "[K15_NESPadButton_A, K15_NESPadButton_B, K15_NESPadButton_Select,
       K15_NESPadButton_Start, K15_NESPadButton_Up, K15_NESPadButton_Down,
       K15_NESPadButton_Left, K15_NESPadButton_Right] = map (\<lambda>i. 2 ^ i) [0..<8]"
    by (simp add: K15_NESPadButton_defs upt_rec)
  moreover have "K15_NESPadButton_A = 0x01 \<and> K15_NESPadButton_B = 0x02
   \<and> K15_NESPadButton_Select = 0x04 \<and> K15_NESPadButton_Start = 0x08
   \<and> K15_NESPadButton_Up = 0x10 \<and> K15_NESPadButton_Down = 0x20
   \<and> K15_NESPadButton_Left = 0x40 \<and> K15_NESPadButton_Right = 0x80"
    by (simp add: K15_NESPadButton_defs)
  moreover have "\<exists>pad' w'. K15_NESPollButtons (Some pad) w = (Some pad', w')
        \<and> map (\<lambda>b. fst (K15_NESButtonPressed (Some pad') b w'))
            [K15_NESPadButton_A, K15_NESPadButton_B, K15_NESPadButton_Select,
             K15_NESPadButton_Start, K15_NESPadButton_Up, K15_NESPadButton_Down,
             K15_NESPadButton_Left, K15_NESPadButton_Right]
          = map (\<lambda>l. if l = LOW then 1 else 0) (stake 8 (readings w))"
  proof -
    let ?r = "poll_loop 0 (pad, 0, latched pad w)"
    let ?pad' = "pad\<lparr>buttonMask := word_of_int (fst (snd ?r))\<rparr>"
    have b: "bit (buttonMask ?pad') n \<longleftrightarrow> n < 8 \<and> readings w !! n = LOW" for n
      by (simp add: poll_mask_bit)
    have "map (\<lambda>b. fst (K15_NESButtonPressed (Some ?pad') b (snd (snd ?r))))
            [K15_NESPadButton_A, K15_NESPadButton_B, K15_NESPadButton_Select,
             K15_NESPadButton_Start, K15_NESPadButton_Up, K15_NESPadButton_Down,
             K15_NESPadButton_Left, K15_NESPadButton_Right]
          = map (\<lambda>l. if l = LOW then 1 else 0) (stake 8 (readings w))"
      unfolding stake_8 list.map pressed_named b by simp
    then show ?thesis
      by (simp only: K15_NESPollButtons_Some) blast
  qed
  ultimately show ?thesis
    by (simp only: simp_thms)
qed

end
